theory Spec2Isabelle
  imports Complex_Main "HOL-Library.AList" "HOL-Library.List_Lexorder" "HOL-Library.Char_ord"
begin

section \<open>Shared vocabulary\<close>

text \<open>
  The exceptions that the two programs can raise on the paths modelled here. An uncaught
  exception is the \<open>Inl\<close> branch of a result.
\<close>

datatype error =
    TypeError
  | ValueError
  | KeyError
  | IndexError
  | AttributeError
  | StatisticsError
  | NegativeStdDev
  | JSONDecodeError
  | HTTPError
  | OverflowError

section \<open>archiver.py: the ingestion bridge\<close>

text \<open>
  A decoded JSON document. A Python \<open>dict\<close> keeps its keys in insertion order, an
  assignment to an existing key keeps the key's position, and an assignment to a new key
  appends it: this is \<open>AList.update\<close> on an association list.
\<close>

datatype jvalue =
    JNull
  | JBool bool
  | JNum real
  | JStr string
  | JArr "jvalue list"
  | JObj "(string \<times> jvalue) list"

type_synonym jdict = "(string \<times> jvalue) list"

text \<open>\<open>str.rfind\<close> with a one-character needle: the highest index, or \<open>-1\<close>.\<close>

fun find_index_of :: "char \<Rightarrow> string \<Rightarrow> nat option" where
  "find_index_of c [] = None"
| "find_index_of c (x # xs) =
     (if x = c then Some 0
      else (case find_index_of c xs of None \<Rightarrow> None | Some i \<Rightarrow> Some (Suc i)))"

definition rfind :: "string \<Rightarrow> char \<Rightarrow> int" where
  "rfind s c =
     (case find_index_of c (rev s) of
        None \<Rightarrow> - 1
      | Some i \<Rightarrow> int (length s) - 1 - int i)"

text \<open>The slice \<open>s[:i]\<close>: a negative bound counts from the end.\<close>

definition slice_to :: "string \<Rightarrow> int \<Rightarrow> string" where
  "slice_to s i = (if i < 0 then take (nat (int (length s) + i)) s else take (nat i) s)"

text \<open>The message object handed to the callback by the broker client.\<close>

record msg =
  topic :: string
  payload :: string

text \<open>\<open>MQTTInterface\<close>: the hand-off queue and the topic catalog.\<close>

record MQTTInterface =
  queue :: "(string \<times> jdict) list"
  topics :: "string \<rightharpoonup> (string \<rightharpoonup> string)"

text \<open>\<open>list.insert(0, x)\<close> and \<open>list.pop()\<close>; the latter raises on an empty list.\<close>

definition list_insert0 :: "'a list \<Rightarrow> 'a \<Rightarrow> 'a list" where
  "list_insert0 xs x = x # xs"

definition list_pop :: "'a list \<Rightarrow> error + ('a \<times> 'a list)" where
  "list_pop xs = (if xs = [] then Inl IndexError else Inr (last xs, butlast xs))"

text \<open>
  \<open>on_message\<close>. The JSON decoder is a parameter (\<open>Inl\<close> when it raises), and \<open>now\<close> is
  the string that \<open>datetime.datetime.now().isoformat()\<close> returns at the call. An exception
  leaves the interface as it was, since the queue is written last.
\<close>

definition on_message ::
  "(string \<Rightarrow> error + jvalue) \<Rightarrow> string \<Rightarrow> MQTTInterface \<Rightarrow> msg \<Rightarrow> error + MQTTInterface"
where
  "on_message json_loads now userdata m =
     (case json_loads (payload m) of
        Inl e \<Rightarrow> Inl e
      | Inr (JObj d) \<Rightarrow>
          (let data = (if ''timestamp'' \<notin> set (map fst d)
                       then (let dot = rfind now (CHR ''.'')
                             in AList.update ''timestamp'' (JStr (slice_to now dot)) d)
                       else d)
           in (case map_of data ''timestamp'' of
                 Some (JStr ts) \<Rightarrow>
                   (let data1 = AList.update ''_id'' (JStr (topic m @ ''@'' @ ts)) data;
                        data2 = AList.update ''topic'' (JStr (topic m)) data1;
                        tdata = (topic m, data2)
                    in Inr (userdata\<lparr>queue := list_insert0 (queue userdata) tdata\<rparr>))
               | Some _ \<Rightarrow> Inl TypeError
               | None \<Rightarrow> Inl KeyError))
      | Inr _ \<Rightarrow> Inl AttributeError)"

text \<open>
  The hot store as the insert loop of \<open>couchdb_client\<close> sees it: the documents stored so
  far, and whether the server answers. An insert raises when the server does not answer or
  when the identifier is taken.
\<close>

record hotstore =
  stored :: "jdict list"
  answering :: bool

definition couchdb_insert :: "hotstore \<Rightarrow> jdict \<Rightarrow> error + hotstore" where
  "couchdb_insert db data =
     (if \<not> answering db then Inl HTTPError
      else if map_of data ''_id'' \<in> set (map (\<lambda>d. map_of d ''_id'') (stored db)) then Inl HTTPError
      else Inr (db\<lparr>stored := stored db @ [data]\<rparr>))"

text \<open>
  One turn of the \<open>while True\<close> loop of \<open>couchdb_client\<close>: pop an entry, or sleep when the
  queue is empty; insert it, or log the failure and go on. The turn returns the entry it
  removed from the queue, if any.
\<close>

definition insert_loop_turn ::
  "hotstore \<times> MQTTInterface \<Rightarrow> (string \<times> jdict) option \<times> hotstore \<times> MQTTInterface"
where
  "insert_loop_turn s =
     (case s of (couchdb, mqtt_iface) \<Rightarrow>
        (case list_pop (queue mqtt_iface) of
           Inl e \<Rightarrow> (None, couchdb, mqtt_iface)
         | Inr ((tpc, data), rest) \<Rightarrow>
             (case couchdb_insert couchdb data of
                Inl e \<Rightarrow> (Some (tpc, data), couchdb, mqtt_iface\<lparr>queue := rest\<rparr>)
              | Inr couchdb' \<Rightarrow> (Some (tpc, data), couchdb', mqtt_iface\<lparr>queue := rest\<rparr>))))"

text \<open>The entries removed by the first \<open>n\<close> turns of the loop, in order, and the state after.\<close>

fun insert_loop ::
  "nat \<Rightarrow> hotstore \<times> MQTTInterface \<Rightarrow> (string \<times> jdict) list \<times> hotstore \<times> MQTTInterface"
where
  "insert_loop 0 s = ([], s)"
| "insert_loop (Suc n) s =
     (case insert_loop_turn s of
        (None, s') \<Rightarrow> insert_loop n s'
      | (Some x, s') \<Rightarrow> (case insert_loop n s' of (xs, s'') \<Rightarrow> (x # xs, s'')))"

text \<open>The queue after the callback has enqueued the entries \<open>es\<close>, earliest first.\<close>

definition enqueue_all :: "MQTTInterface \<Rightarrow> (string \<times> jdict) list \<Rightarrow> MQTTInterface" where
  "enqueue_all userdata es = foldl (\<lambda>u e. u\<lparr>queue := list_insert0 (queue u) e\<rparr>) userdata es"

section \<open>dsarchiver.py: the consolidation engine\<close>

subsection \<open>The libraries the engine calls\<close>

text \<open>
  A \<open>datetime\<close> is the reading of its own clock, counted in microseconds from
  0001-01-01T00:00:00, and its offset from UTC in microseconds. The offset is \<open>None\<close>
  for a naive datetime: \<open>datetime.now()\<close> returns one, and so does \<open>fromisoformat\<close> for a
  string without an offset, while a string such as \<open>2020-12-06T10:00:00+01:00\<close> gives
  an aware one. The last datetime is 9999-12-31T23:59:59.999999.
\<close>

record datetime =
  dt_micro :: int
  dt_offset :: "int option"

definition naive :: "int \<Rightarrow> datetime" where
  "naive t = \<lparr>dt_micro = t, dt_offset = None\<rparr>"

definition datetime_max :: int where
  "datetime_max = 315537897599999999"

text \<open>
  The conversions between a \<open>datetime\<close> and its ISO-8601 string belong to the Python
  library and are parameters of the model: \<open>fromisoformat\<close> answers \<open>None\<close> where the
  library raises \<open>ValueError\<close>, and \<open>isoformat_seconds\<close> is
  \<open>isoformat(timespec='seconds')\<close>.
\<close>

record datetime_lib =
  fromisoformat :: "string \<Rightarrow> datetime option"
  isoformat :: "datetime \<Rightarrow> string"
  isoformat_seconds :: "datetime \<Rightarrow> string"

text \<open>
  A \<open>timedelta\<close> is a count of microseconds. \<open>datetime.timedelta(minutes=m)\<close> for an
  integer \<open>m\<close> raises \<open>OverflowError\<close> when the whole days of the result, \<open>m\<close> divided
  by 1440 and rounded down, number more than 999999999 in either direction.
\<close>

definition timedelta_max_days :: int where
  "timedelta_max_days = 999999999"

definition timedelta_minutes :: "int \<Rightarrow> error + int" where
  "timedelta_minutes m =
     (if - timedelta_max_days \<le> m div 1440 \<and> m div 1440 \<le> timedelta_max_days
      then Inr (60000000 * m) else Inl OverflowError)"

text \<open>
  \<open>datetime + timedelta\<close> moves the reading of the clock and keeps the offset; it raises
  \<open>OverflowError\<close> when the result is not a datetime of the years 1 to 9999.
\<close>

definition datetime_add :: "datetime \<Rightarrow> int \<Rightarrow> error + datetime" where
  "datetime_add d td =
     (if 0 \<le> dt_micro d + td \<and> dt_micro d + td \<le> datetime_max
      then Inr (d\<lparr>dt_micro := dt_micro d + td\<rparr>) else Inl OverflowError)"

text \<open>
  \<open>a >= b\<close> and \<open>a - b\<close> on two datetimes: both raise \<open>TypeError\<close> when one is naive and
  the other aware; two aware datetimes are compared and subtracted as instants of UTC.
\<close>

definition datetime_ge :: "datetime \<Rightarrow> datetime \<Rightarrow> error + bool" where
  "datetime_ge a b =
     (case dt_offset a of
        None \<Rightarrow> (case dt_offset b of
                    None \<Rightarrow> Inr (dt_micro a \<ge> dt_micro b)
                  | Some y \<Rightarrow> Inl TypeError)
      | Some x \<Rightarrow> (case dt_offset b of
                      None \<Rightarrow> Inl TypeError
                    | Some y \<Rightarrow> Inr (dt_micro a - x \<ge> dt_micro b - y)))"

definition datetime_sub :: "datetime \<Rightarrow> datetime \<Rightarrow> error + int" where
  "datetime_sub a b =
     (case dt_offset a of
        None \<Rightarrow> (case dt_offset b of
                    None \<Rightarrow> Inr (dt_micro a - dt_micro b)
                  | Some y \<Rightarrow> Inl TypeError)
      | Some x \<Rightarrow> (case dt_offset b of
                      None \<Rightarrow> Inl TypeError
                    | Some y \<Rightarrow> Inr ((dt_micro a - x) - (dt_micro b - y))))"

text \<open>
  \<open>timedelta / 2.0\<close>: the library divides the microsecond count by two and rounds a half
  to the even neighbour.
\<close>

definition timedelta_half :: "int \<Rightarrow> int" where
  "timedelta_half d =
     (let q = d div 2; r = d mod 2 in if r = 1 \<and> q mod 2 = 1 then q + 1 else q)"

text \<open>
  \<open>statistics.mean\<close> and \<open>statistics.stdev\<close> over the reals: the first raises on no data,
  the second on fewer than two data points. Python's floats are read as reals throughout.
\<close>

definition stats_mean :: "real list \<Rightarrow> error + real" where
  "stats_mean xs =
     (if xs = [] then Inl StatisticsError else Inr (sum_list xs / real (length xs)))"

definition stats_stdev :: "real list \<Rightarrow> error + real" where
  "stats_stdev xs =
     (if length xs < 2 then Inl StatisticsError
      else (let m = sum_list xs / real (length xs)
            in Inr (sqrt (sum_list (map (\<lambda>x. (x - m)\<^sup>2) xs) / real (length xs - 1)))))"

text \<open>
  The \<open>uncertainties\<close> package, as far as \<open>process_series\<close> uses it. A number with
  uncertainty is its nominal value together with one pair (derivative, standard
  deviation) for each independent variable it depends on; every call of \<open>ufloat\<close> makes a new
  variable, and a negative standard deviation is refused. The standard deviation of an
  expression is the root of the sum of the squared products.
\<close>

type_synonym ufloat_t = "real \<times> (real \<times> real) list"

definition ufloat :: "real \<Rightarrow> real \<Rightarrow> error + ufloat_t" where
  "ufloat v s = (if s < 0 then Inl NegativeStdDev else Inr (v, [(1, s)]))"

definition uadd :: "ufloat_t \<Rightarrow> ufloat_t \<Rightarrow> ufloat_t" where
  "uadd a b = (fst a + fst b, snd a @ snd b)"

definition usum :: "ufloat_t list \<Rightarrow> ufloat_t" where
  "usum us = foldl uadd (0, []) us"

definition udiv :: "ufloat_t \<Rightarrow> nat \<Rightarrow> ufloat_t" where
  "udiv a n = (fst a / real n, map (\<lambda>c. (fst c / real n, snd c)) (snd a))"

definition nominal_value :: "ufloat_t \<Rightarrow> real" where
  "nominal_value a = fst a"

definition std_dev :: "ufloat_t \<Rightarrow> real" where
  "std_dev a = sqrt (sum_list (map (\<lambda>c. (fst c * snd c)\<^sup>2) (snd a)))"

subsection \<open>Documents and stores\<close>

text \<open>
  A device document maps a measure type to its accuracy table; a measure type without
  an entry stands for every way in which \<open>device[value_type]['accuracy']\<close> raises.
\<close>

record band =
  range_inf :: real
  range_sup :: real
  band_value :: real

type_synonym device = "string \<rightharpoonup> band list"

text \<open>
  A row of the view \<open>by_topic_no_reduce\<close>: the identifier of the sample, the key
  \<open>[topic, timestamp]\<close>, the measured value and the sample document. Rows are taken
  well-formed: every sample has a device, a type and a timestamp, and a numeric value.
\<close>

record doc =
  dev :: string
  doc_type :: string
  timestamp :: string

record row =
  row_id :: string
  key :: "string \<times> string"
  row_value :: real
  row_doc :: doc

record view_params =
  startkey :: "string list"
  endkey :: "string list option"
  limit :: "nat option"
  include_docs :: bool

text \<open>
  What a view request does: it raises; or it returns an answer whose body is not JSON, so
  that \<open>result.json()\<close> raises; or the decoded answer has no \<open>rows\<close>; or it has rows.
\<close>

datatype view_answer = Raises | NotJSON | NoRows | Rows "row list"

text \<open>
  The hot store: what it answers to a view request, the identifier and revision of every
  stored sample, and the identifiers for which \<open>get\<close> or \<open>remove\<close> raise (the server
  does not answer). \<open>get\<close> also raises for an unknown identifier, \<open>remove\<close> for a
  stale revision.
\<close>

record realtime_db =
  ddoc_view :: "view_params \<Rightarrow> view_answer"
  docs :: "(string \<times> string) list"
  get_raises :: "string \<Rightarrow> bool"
  remove_raises :: "string \<Rightarrow> bool"

definition realtime_get :: "realtime_db \<Rightarrow> string \<Rightarrow> error + (string \<times> string)" where
  "realtime_get db i =
     (if get_raises db i then Inl HTTPError
      else (case map_of (docs db) i of None \<Rightarrow> Inl HTTPError | Some revision \<Rightarrow> Inr (i, revision)))"

definition realtime_remove :: "realtime_db \<Rightarrow> string \<Rightarrow> string \<Rightarrow> error + realtime_db" where
  "realtime_remove db i revision =
     (if remove_raises db i then Inl HTTPError
      else if map_of (docs db) i = Some revision
           then Inr (db\<lparr>docs := filter (\<lambda>d. fst d \<noteq> i) (docs db)\<rparr>)
           else Inl HTTPError)"

text \<open>The consolidated record that \<open>process_series\<close> builds.\<close>

record meas =
  meas_topic :: string
  meas_measure_type :: "string option"
  meas_value_type :: string
  meas_timestamp :: string
  meas_value :: real
  meas_accuracy :: real
  meas_min_value :: "real option \<times> string"
  meas_max_value :: "real option \<times> string"
  meas_time_slot :: "string \<times> string"
  meas_id :: string

text \<open>
  The cold store: the records it holds, and whether an insert raises because the server
  does not answer. An insert under an identifier already taken raises too.
\<close>

record datastore_db =
  measures :: "meas list"
  insert_raises :: bool

definition datastore_insert :: "datastore_db \<Rightarrow> meas \<Rightarrow> error + datastore_db" where
  "datastore_insert db m =
     (if insert_raises db then Inl HTTPError
      else if meas_id m \<in> set (map meas_id (measures db)) then Inl HTTPError
      else Inr (db\<lparr>measures := measures db @ [m]\<rparr>))"

record Databases =
  db_realtime :: realtime_db
  db_datastore :: datastore_db
  db_devices :: "string \<Rightarrow> error + device"

subsection \<open>Window selection\<close>

definition first_doc_params :: "string \<Rightarrow> view_params" where
  "first_doc_params tpc =
     \<lparr>startkey = [tpc], endkey = None, limit = Some 1, include_docs = False\<rparr>"

text \<open>
  \<open>get_first_doc\<close>. The request and the lookup of \<open>rows\<close> are guarded by a \<open>try\<close>;
  \<open>result.json()\<close> and \<open>fromisoformat\<close> are not.
\<close>

definition get_first_doc :: "datetime_lib \<Rightarrow> Databases \<Rightarrow> string \<Rightarrow> error + datetime option" where
  "get_first_doc lib dbs tpc =
     (case ddoc_view (db_realtime dbs) (first_doc_params tpc) of
        Raises \<Rightarrow> Inr None
      | NotJSON \<Rightarrow> Inl JSONDecodeError
      | NoRows \<Rightarrow> Inr None
      | Rows [] \<Rightarrow> Inr None
      | Rows (d # rest) \<Rightarrow>
          (case fromisoformat lib (snd (key d)) of
             None \<Rightarrow> Inl ValueError
           | Some t \<Rightarrow> Inr (Some t)))"

definition slot_params :: "datetime_lib \<Rightarrow> string \<Rightarrow> datetime \<Rightarrow> datetime \<Rightarrow> view_params" where
  "slot_params lib tpc start_timestamp end_timestamp =
     \<lparr>startkey = [tpc, isoformat lib start_timestamp],
      endkey = Some [tpc, isoformat lib end_timestamp],
      limit = None, include_docs = True\<rparr>"

text \<open>
  \<open>get_measures_slot\<close>; \<open>now\<close> is the reading of the clock that \<open>datetime.datetime.now()\<close>
  returns, a naive datetime. The result \<open>Inr None\<close> is the Python \<open>None\<close>. In
  \<open>start_timestamp + datetime.timedelta(minutes=timespan)\<close> the \<open>timedelta\<close> is built
  first; adding it to \<open>None\<close> raises \<open>TypeError\<close>.
\<close>

definition get_measures_slot ::
  "datetime_lib \<Rightarrow> int \<Rightarrow> Databases \<Rightarrow> string \<Rightarrow> int \<Rightarrow> error + row list option"
where
  "get_measures_slot lib now dbs tpc timespan =
     (case get_first_doc lib dbs tpc of
        Inl e \<Rightarrow> Inl e
      | Inr start_timestamp \<Rightarrow>
     (case timedelta_minutes timespan of
        Inl e \<Rightarrow> Inl e
      | Inr td \<Rightarrow>
     (case start_timestamp of
        None \<Rightarrow> Inl TypeError
      | Some start \<Rightarrow>
     (case datetime_add start td of
        Inl e \<Rightarrow> Inl e
      | Inr end_timestamp \<Rightarrow>
     (case datetime_ge end_timestamp (naive now) of
        Inl e \<Rightarrow> Inl e
      | Inr late \<Rightarrow>
          if late then Inr None
          else (case ddoc_view (db_realtime dbs) (slot_params lib tpc start end_timestamp) of
                  Raises \<Rightarrow> Inr None
                | NotJSON \<Rightarrow> Inl JSONDecodeError
                | NoRows \<Rightarrow> Inr None
                | Rows rows \<Rightarrow> Inr (Some rows)))))))"

subsection \<open>Accuracy resolution\<close>

definition get_device :: "Databases \<Rightarrow> string \<Rightarrow> device option" where
  "get_device dbs device = (case db_devices dbs device of Inl e \<Rightarrow> None | Inr d \<Rightarrow> Some d)"

text \<open>The \<open>for\<close> loop of \<open>accuracy\<close>, which leaves at the first band that holds the reading.\<close>

fun accuracy_loop :: "band list \<Rightarrow> real \<Rightarrow> real" where
  "accuracy_loop [] reading = 0"
| "accuracy_loop (a # accuracies) reading =
     (if reading \<ge> range_inf a \<and> reading < range_sup a then band_value a
      else accuracy_loop accuracies reading)"

text \<open>
  \<open>accuracy\<close>. The measure type is \<open>None\<close> only for a series without samples; a lookup
  under \<open>None\<close> raises inside the \<open>try\<close> like any other missing key.
\<close>

definition accuracy :: "device option \<Rightarrow> string option \<Rightarrow> real \<Rightarrow> real" where
  "accuracy device value_type reading =
     (case device of
        None \<Rightarrow> 0
      | Some d \<Rightarrow>
          (case value_type of
             None \<Rightarrow> 0
           | Some t \<Rightarrow>
               (case d t of
                  None \<Rightarrow> 0
                | Some accuracies \<Rightarrow> accuracy_loop accuracies reading)))"

subsection \<open>Aggregation\<close>

text \<open>The local variables that the first loop of \<open>process_series\<close> updates.\<close>

record series_state =
  devices :: "string \<rightharpoonup> device option"
  min_value :: "real option"
  min_timestamp :: string
  max_value :: "real option"
  max_timestamp :: string
  data_values :: "(real \<times> string) list"
  measure_type :: "string option"
  timestamps :: "string list"

definition series_init :: series_state where
  "series_init =
     \<lparr>devices = Map.empty, min_value = None, min_timestamp = [],
      max_value = None, max_timestamp = [], data_values = [],
      measure_type = None, timestamps = []\<rparr>"

definition series_step :: "Databases \<Rightarrow> series_state \<Rightarrow> row \<Rightarrow> series_state" where
  "series_step dbs st dt =
     (let v = row_value dt;
          d = row_doc dt;
          device = dev d;
          st1 = (if devices st device = None
                 then st\<lparr>devices := (devices st)(device \<mapsto> get_device dbs device)\<rparr>
                 else st);
          st2 = (if measure_type st1 = None then st1\<lparr>measure_type := Some (doc_type d)\<rparr>
                 else st1);
          st3 = st2\<lparr>data_values := data_values st2 @ [(v, device)],
                    timestamps := timestamps st2 @ [timestamp d]\<rparr>;
          st4 = (case min_value st3 of
                   None \<Rightarrow> st3\<lparr>min_value := Some v, min_timestamp := timestamp d\<rparr>
                 | Some m \<Rightarrow>
                     if v < m then st3\<lparr>min_value := Some v, min_timestamp := timestamp d\<rparr>
                     else st3)
      in (case max_value st4 of
            None \<Rightarrow> st4\<lparr>max_value := Some v, max_timestamp := timestamp d\<rparr>
          | Some m \<Rightarrow>
              if v > m then st4\<lparr>max_value := Some v, max_timestamp := timestamp d\<rparr>
              else st4))"

definition series_loop :: "Databases \<Rightarrow> row list \<Rightarrow> series_state" where
  "series_loop dbs data = foldl (series_step dbs) series_init data"

text \<open>\<open>min\<close> and \<open>max\<close> of a list of strings; both raise on the empty list.\<close>

definition py_min :: "string list \<Rightarrow> error + string" where
  "py_min xs = (case xs of [] \<Rightarrow> Inl ValueError | x # rest \<Rightarrow> Inr (fold min rest x))"

definition py_max :: "string list \<Rightarrow> error + string" where
  "py_max xs = (case xs of [] \<Rightarrow> Inl ValueError | x # rest \<Rightarrow> Inr (fold max rest x))"

text \<open>The second loop: one number with uncertainty for each sample.\<close>

fun uvalues_loop ::
  "(string \<rightharpoonup> device option) \<Rightarrow> string option \<Rightarrow> (real \<times> string) list \<Rightarrow> error + ufloat_t list"
where
  "uvalues_loop dvs mt [] = Inr []"
| "uvalues_loop dvs mt ((v, device) # rest) =
     (case dvs device of
        None \<Rightarrow> Inl KeyError
      | Some dv \<Rightarrow>
          (case ufloat v (accuracy dv mt v) of
             Inl e \<Rightarrow> Inl e
           | Inr u \<Rightarrow>
               (case uvalues_loop dvs mt rest of
                  Inl e \<Rightarrow> Inl e
                | Inr us \<Rightarrow> Inr (u # us))))"

definition process_series ::
  "datetime_lib \<Rightarrow> Databases \<Rightarrow> string \<Rightarrow> row list \<Rightarrow> error + meas"
where
  "process_series lib dbs tpc data =
     (let st = series_loop dbs data in
      case py_min (timestamps st) of Inl e \<Rightarrow> Inl e | Inr first_timestamp \<Rightarrow>
      case py_max (timestamps st) of Inl e \<Rightarrow> Inl e | Inr last_timestamp \<Rightarrow>
      case stats_mean (map fst (data_values st)) of Inl e \<Rightarrow> Inl e | Inr mean_value \<Rightarrow>
      case stats_stdev (map fst (data_values st)) of Inl e \<Rightarrow> Inl e | Inr stddev_value \<Rightarrow>
      case uvalues_loop (devices st) (measure_type st) (data_values st) of
        Inl e \<Rightarrow> Inl e | Inr uvalues \<Rightarrow>
      let uaverage = udiv (usum uvalues) (length uvalues) in
      case fromisoformat lib last_timestamp of None \<Rightarrow> Inl ValueError | Some last_dt \<Rightarrow>
      case fromisoformat lib first_timestamp of None \<Rightarrow> Inl ValueError | Some first_dt \<Rightarrow>
      case datetime_sub last_dt first_dt of Inl e \<Rightarrow> Inl e | Inr slot \<Rightarrow>
      case datetime_add first_dt (timedelta_half slot) of
        Inl e \<Rightarrow> Inl e | Inr avg_timestamp \<Rightarrow>
      let measure_timestamp = isoformat_seconds lib avg_timestamp
      in Inr \<lparr>meas_topic = tpc,
              meas_measure_type = measure_type st,
              meas_value_type = ''average'',
              meas_timestamp = measure_timestamp,
              meas_value = nominal_value uaverage,
              meas_accuracy = std_dev uaverage,
              meas_min_value = (min_value st, min_timestamp st),
              meas_max_value = (max_value st, max_timestamp st),
              meas_time_slot = (first_timestamp, last_timestamp),
              meas_id = tpc @ ''@'' @ measure_timestamp\<rparr>)"

subsection \<open>Migration\<close>

text \<open>
  The deletion loop of \<open>archive_series\<close>. It has no handler: the first \<open>get\<close> or
  \<open>remove\<close> that raises ends the loop, with the store as the earlier turns left it.
\<close>

fun delete_loop :: "Databases \<Rightarrow> row list \<Rightarrow> (error + bool) \<times> Databases" where
  "delete_loop dbs [] = (Inr True, dbs)"
| "delete_loop dbs (r # rows) =
     (case realtime_get (db_realtime dbs) (row_id r) of
        Inl e \<Rightarrow> (Inl e, dbs)
      | Inr result \<Rightarrow>
          (case realtime_remove (db_realtime dbs) (fst result) (snd result) of
             Inl e \<Rightarrow> (Inl e, dbs)
           | Inr db' \<Rightarrow> delete_loop (dbs\<lparr>db_realtime := db'\<rparr>) rows))"

text \<open>
  \<open>archive_series\<close> returns its result, or the exception that leaves it, together with
  the stores as it left them. A failed insert is logged and nothing else: the function
  goes on to the deletions.
\<close>

definition archive_series ::
  "datetime_lib \<Rightarrow> int \<Rightarrow> Databases \<Rightarrow> string \<Rightarrow> int \<Rightarrow> (error + bool) \<times> Databases"
where
  "archive_series lib now dbs tpc timespan =
     (case get_measures_slot lib now dbs tpc timespan of
        Inl e \<Rightarrow> (Inl e, dbs)
      | Inr None \<Rightarrow> (Inr False, dbs)
      | Inr (Some rows) \<Rightarrow>
          (case process_series lib dbs tpc rows of
             Inl e \<Rightarrow> (Inl e, dbs)
           | Inr calc_meas \<Rightarrow>
               (let dbs1 = (case datastore_insert (db_datastore dbs) calc_meas of
                              Inl e \<Rightarrow> dbs
                            | Inr store \<Rightarrow> dbs\<lparr>db_datastore := store\<rparr>)
                in delete_loop dbs1 rows)))"

subsection \<open>A sample deployment\<close>

text \<open>
  The inputs at which the theorems below are evaluated. The clock is read on
  2020-12-06, whose midnight is 63742809600000000 microseconds after 0001-01-01T00:00:00.
  The library's answers are given at the timestamps that occur, one of them with an
  offset of one hour from UTC. One device feeds every topic; its temperature readings are
  accurate to 0.1 below 10 and to 0.2 from 10 to 20.
\<close>

definition on_2020_12_06 :: "int \<Rightarrow> int \<Rightarrow> int \<Rightarrow> int" where
  "on_2020_12_06 h m s = 63742809600000000 + 1000000 * (3600 * h + 60 * m + s)"

definition sample_lib :: datetime_lib where
  "sample_lib =
     \<lparr>fromisoformat = map_of
        [(''2020-12-06T10:00:00'', naive (on_2020_12_06 10 0 0)),
         (''2020-12-06T10:01:00'', naive (on_2020_12_06 10 1 0)),
         (''2020-12-06T10:02:00'', naive (on_2020_12_06 10 2 0)),
         (''2020-12-06T10:03:00'', naive (on_2020_12_06 10 3 0)),
         (''2020-12-06T10:00:00+01:00'',
            \<lparr>dt_micro = on_2020_12_06 10 0 0, dt_offset = Some 3600000000\<rparr>)],
      isoformat = (\<lambda>d. if d = naive (on_2020_12_06 10 0 0) then ''2020-12-06T10:00:00''
                        else if d = naive (on_2020_12_06 10 10 0) then ''2020-12-06T10:10:00''
                        else []),
      isoformat_seconds =
        (\<lambda>d. if d = naive (on_2020_12_06 10 0 30) then ''2020-12-06T10:00:30''
              else if d = naive (on_2020_12_06 10 1 0) then ''2020-12-06T10:01:00''
              else if d = naive (on_2020_12_06 10 1 30) then ''2020-12-06T10:01:30''
              else [])\<rparr>"

definition thermo :: device where
  "thermo = [''temperature'' \<mapsto>
       [\<lparr>range_inf = 0, range_sup = 10, band_value = 1 / 10\<rparr>,
        \<lparr>range_inf = 10, range_sup = 20, band_value = 2 / 10\<rparr>]]"

definition sample_row :: "string \<Rightarrow> string \<Rightarrow> real \<Rightarrow> row" where
  "sample_row tpc ts v =
     \<lparr>row_id = tpc @ ''@'' @ ts, key = (tpc, ts), row_value = v,
      row_doc = \<lparr>dev = ''dht22'', doc_type = ''temperature'', timestamp = ts\<rparr>\<rparr>"

text \<open>
  The hot store keeps its samples in the order of their keys \<open>[topic, timestamp]\<close> and
  answers a view request with the samples whose key lies from \<open>startkey\<close> to \<open>endkey\<close>,
  as many as \<open>limit\<close> allows; a key is a list of strings, and a list precedes every list
  that extends it. The window request, the insert into the cold store and chosen
  deletions can be made to fail.
\<close>

definition in_keys :: "view_params \<Rightarrow> row \<Rightarrow> bool" where
  "in_keys p r =
     (startkey p \<le> [fst (key r), snd (key r)] \<and>
      (case endkey p of None \<Rightarrow> True | Some e \<Rightarrow> [fst (key r), snd (key r)] \<le> e))"

definition sample_view :: "row list \<Rightarrow> bool \<Rightarrow> view_params \<Rightarrow> view_answer" where
  "sample_view rows slot_fails p =
     (if slot_fails \<and> endkey p \<noteq> None then Raises
      else (case limit p of
              None \<Rightarrow> Rows (filter (in_keys p) rows)
            | Some n \<Rightarrow> Rows (take n (filter (in_keys p) rows))))"

definition sample_dbs :: "row list \<Rightarrow> bool \<Rightarrow> bool \<Rightarrow> string list \<Rightarrow> Databases" where
  "sample_dbs rows slot_fails ins_fails rm_fails =
     \<lparr>db_realtime =
        \<lparr>ddoc_view = sample_view rows slot_fails,
         docs = map (\<lambda>r. (row_id r, ''1-a'')) rows,
         get_raises = (\<lambda>i. False),
         remove_raises = (\<lambda>i. i \<in> set rm_fails)\<rparr>,
      db_datastore = \<lparr>measures = [], insert_raises = ins_fails\<rparr>,
      db_devices = (\<lambda>d. if d = ''dht22'' then Inr thermo else Inl HTTPError)\<rparr>"

subsection \<open>The weighted mean of the specification\<close>


section \<open>Properties of the ingestion bridge\<close>

lemma queue_enqueue_all: "queue (enqueue_all u es) = rev es @ queue u"
  unfolding enqueue_all_def
  by (induction es arbitrary: u) (simp_all add: list_insert0_def)

lemma topics_enqueue_all: "topics (enqueue_all u es) = topics u"
  unfolding enqueue_all_def
  by (induction es arbitrary: u) simp_all

lemma insert_loop_drains:
  "queue u = rev es \<Longrightarrow>
   fst (insert_loop (length es) (db, u)) = es \<and>
   queue (snd (snd (insert_loop (length es) (db, u)))) = []"
proof (induction es arbitrary: db u)
  case Nil
  then show ?case by simp
next
  case (Cons e es)
  obtain t d where e: "e = (t, d)" by (cases e)
  have pop: "list_pop (queue u) = Inr ((t, d), rev es)"
    using Cons.prems e by (simp add: list_pop_def)
  define db' where "db' = (case couchdb_insert db d of Inl x \<Rightarrow> db | Inr c \<Rightarrow> c)"
  have turn: "insert_loop_turn (db, u) = (Some (t, d), db', u\<lparr>queue := rev es\<rparr>)"
    using pop by (simp add: insert_loop_turn_def db'_def split: sum.splits)
  have "queue (u\<lparr>queue := rev es\<rparr>) = rev es" by simp
  from Cons.IH [OF this, of db'] turn e show ?case
    by (simp add: split_beta)
qed

text \<open>
  Claim C4. Whatever the queue holds at the start, after the callback has enqueued
  \<open>E1..En\<close> with \<open>insert(0, x)\<close>, the insert loop, which takes entries with \<open>pop()\<close>,
  removes first what the queue held (oldest first) and then \<open>E1..En\<close> in exactly that
  order, and leaves the queue empty. From the empty queue that \<open>main\<close> creates, the
  entries drained are \<open>E1..En\<close>. A failing insert into the hot store does not change
  the order.
\<close>

theorem fifo_order:
  "fst (insert_loop (length (queue u) + length es) (db, enqueue_all u es)) = rev (queue u) @ es \<and>
   queue (snd (snd (insert_loop (length (queue u) + length es) (db, enqueue_all u es)))) = []"
  using insert_loop_drains [of "enqueue_all u es" "rev (queue u) @ es" db]
  by (simp add: queue_enqueue_all)

lemma rfind_no_dot: "c \<notin> set s \<Longrightarrow> rfind s c = - 1"
proof -
  have "c \<notin> set t \<Longrightarrow> find_index_of c t = None" for t
    by (induction t) auto
  from this [of "rev s"] show "c \<notin> set s \<Longrightarrow> rfind s c = - 1"
    by (simp add: rfind_def)
qed

lemma find_index_of_append:
  "c \<notin> set xs \<Longrightarrow> find_index_of c (xs @ c # ys) = Some (length xs)"
  by (induction xs) auto

lemma rfind_last_dot:
  "c \<notin> set fr \<Longrightarrow> rfind (base @ c # fr) c = int (length base)"
  using find_index_of_append [of c "rev fr" "rev base"]
  by (simp add: rfind_def)

text \<open>
  When the clock string has a fraction, the stamp is the part before the last dot; when
  it has none (the microsecond field is zero), \<open>rfind\<close> answers \<open>-1\<close> and the slice drops
  the last character of the string.
\<close>

lemma stamp_with_fraction:
  "CHR ''.'' \<notin> set fr \<Longrightarrow>
   slice_to (base @ CHR ''.'' # fr) (rfind (base @ CHR ''.'' # fr) (CHR ''.'')) = base"
  by (simp add: rfind_last_dot slice_to_def)

lemma stamp_without_fraction:
  "CHR ''.'' \<notin> set now \<Longrightarrow> slice_to now (rfind now (CHR ''.'')) = butlast now"
proof -
  assume "CHR ''.'' \<notin> set now"
  then have r: "rfind now (CHR ''.'') = - 1" by (rule rfind_no_dot)
  have "nat (int (length now) + - 1) = length now - 1" by arith
  then show ?thesis by (simp add: r slice_to_def butlast_conv_take)
qed

text \<open>
  Every record that reaches the queue carries its topic, a timestamp string, and the
  identifier \<open>topic@timestamp\<close>.
\<close>

lemma on_message_tags:
  "on_message json_loads now u m = Inr u' \<Longrightarrow>
   \<exists>d ts. queue u' = (topic m, d) # queue u \<and>
          map_of d ''topic'' = Some (JStr (topic m)) \<and>
          map_of d ''timestamp'' = Some (JStr ts) \<and>
          map_of d ''_id'' = Some (JStr (topic m @ ''@'' @ ts))"
  by (auto simp: on_message_def Let_def list_insert0_def update_conv'
           split: sum.splits jvalue.splits option.splits if_splits)

text \<open>
  Claim C9. A record without a timestamp is to be stamped with the current local time at
  second precision. At a call that falls on a whole second, \<open>isoformat()\<close> returns
  \<open>2020-12-06T10:00:00\<close> with no fraction, and the callback stamps the record with
  \<open>2020-12-06T10:00:0\<close>: the last digit of the seconds is lost, in the timestamp and in
  the identifier built from it. The topic and the identifier are set before the push.
\<close>

theorem on_message_whole_second:
  "on_message (\<lambda>p. Inr (JObj [])) ''2020-12-06T10:00:00''
     \<lparr>queue = [], topics = Map.empty\<rparr> \<lparr>topic = ''temp/room1'', payload = ''{}''\<rparr>
   = Inr \<lparr>queue = [(''temp/room1'',
               [(''timestamp'', JStr ''2020-12-06T10:00:0''),
                (''_id'', JStr ''temp/room1@2020-12-06T10:00:0''),
                (''topic'', JStr ''temp/room1'')])],
          topics = Map.empty\<rparr>"
  by (simp add: on_message_def rfind_def slice_to_def list_insert0_def)

section \<open>Properties of the consolidation engine\<close>

lemma accuracy_loop_none:
  "\<forall>b\<in>set bs. \<not> (range_inf b \<le> r \<and> r < range_sup b) \<Longrightarrow> accuracy_loop bs r = 0"
  by (induction bs) auto

lemma accuracy_loop_find:
  "find (\<lambda>b. range_inf b \<le> r \<and> r < range_sup b) bs = Some b \<Longrightarrow>
   accuracy_loop bs r = band_value b"
  by (induction bs) (auto split: if_splits)

lemma accuracy_loop_unique:
  "b \<in> set bs \<Longrightarrow> range_inf b \<le> r \<Longrightarrow> r < range_sup b \<Longrightarrow>
   \<forall>b'\<in>set bs. range_inf b' \<le> r \<and> r < range_sup b' \<longrightarrow> b' = b \<Longrightarrow>
   accuracy_loop bs r = band_value b"
proof (induction bs)
  case Nil
  then show ?case by simp
next
  case (Cons a bs)
  show ?case
  proof (cases "range_inf a \<le> r \<and> r < range_sup a")
    case True
    with Cons.prems(4) have "a = b" by (meson list.set_intros(1))
    with True show ?thesis by simp
  next
    case False
    with Cons.prems(1,2,3) have "b \<in> set bs" by auto
    moreover from Cons.prems(4)
    have "\<forall>b'\<in>set bs. range_inf b' \<le> r \<and> r < range_sup b' \<longrightarrow> b' = b"
      by (meson list.set_intros(2))
    ultimately have "accuracy_loop bs r = band_value b"
      using Cons.IH Cons.prems(2,3) by blast
    moreover from False have "accuracy_loop (a # bs) r = accuracy_loop bs r"
      by auto
    ultimately show ?thesis by (simp only:)
  qed
qed

text \<open>
  Claim C7. \<open>accuracy\<close> answers 0 for an unknown device, for a device without a
  table for the measure type, and when no band holds the reading. When a band holds the
  reading, the answer is the value of the first such band in the table, hence of the one
  band that holds it when the bands do not overlap. For the bands \<open>[0,10)\<close> at 0.1
  and \<open>[10,20)\<close> at 0.2 the readings 9.9, 15 and 25 resolve to 0.1, 0.2 and 0.
\<close>

theorem accuracy_resolution:
  "accuracy None ty r = 0 \<and>
   (dv t = None \<longrightarrow> accuracy (Some dv) (Some t) r = 0) \<and>
   (dv t = Some bs \<and> (\<forall>b\<in>set bs. \<not> (range_inf b \<le> r \<and> r < range_sup b))
      \<longrightarrow> accuracy (Some dv) (Some t) r = 0) \<and>
   (dv t = Some bs \<and> find (\<lambda>b. range_inf b \<le> r \<and> r < range_sup b) bs = Some b
      \<longrightarrow> accuracy (Some dv) (Some t) r = band_value b) \<and>
   (dv t = Some bs \<and> b \<in> set bs \<and> range_inf b \<le> r \<and> r < range_sup b \<and>
      (\<forall>b'\<in>set bs. range_inf b' \<le> r \<and> r < range_sup b' \<longrightarrow> b' = b)
      \<longrightarrow> accuracy (Some dv) (Some t) r = band_value b) \<and>
   accuracy (Some thermo) (Some ''temperature'') (99 / 10) = 1 / 10 \<and>
   accuracy (Some thermo) (Some ''temperature'') 15 = 2 / 10 \<and>
   accuracy (Some thermo) (Some ''temperature'') 25 = 0"
proof (intro conjI impI)
  show "accuracy None ty r = 0" by (simp add: accuracy_def)
  show "accuracy (Some dv) (Some t) r = 0" if "dv t = None"
    using that by (simp add: accuracy_def)
  show "accuracy (Some dv) (Some t) r = 0"
    if "dv t = Some bs \<and> (\<forall>b\<in>set bs. \<not> (range_inf b \<le> r \<and> r < range_sup b))"
    using that accuracy_loop_none [of bs r] by (simp add: accuracy_def)
  show "accuracy (Some dv) (Some t) r = band_value b"
    if "dv t = Some bs \<and> find (\<lambda>b. range_inf b \<le> r \<and> r < range_sup b) bs = Some b"
    using that accuracy_loop_find [of r bs b] by (simp add: accuracy_def)
  show "accuracy (Some dv) (Some t) r = band_value b"
    if h: "dv t = Some bs \<and> b \<in> set bs \<and> range_inf b \<le> r \<and> r < range_sup b \<and>
      (\<forall>b'\<in>set bs. range_inf b' \<le> r \<and> r < range_sup b' \<longrightarrow> b' = b)"
  proof -
    from h have d: "dv t = Some bs" by blast
    from h have "accuracy_loop bs r = band_value b"
      by (intro accuracy_loop_unique) blast+
    with d show ?thesis by (simp add: accuracy_def)
  qed
  show "accuracy (Some thermo) (Some ''temperature'') (99 / 10) = 1 / 10"
    by (simp add: accuracy_def thermo_def)
  show "accuracy (Some thermo) (Some ''temperature'') 15 = 2 / 10"
    by (simp add: accuracy_def thermo_def)
  show "accuracy (Some thermo) (Some ''temperature'') 25 = 0"
    by (simp add: accuracy_def thermo_def)
qed

text \<open>
  The theorem at the sample device: the reading 12 lies in the second band only, and the
  device has no table for humidity.
\<close>

theorem accuracy_resolution_witness:
  "thermo ''temperature'' =
     Some [\<lparr>range_inf = 0, range_sup = 10, band_value = 1 / 10\<rparr>,
           \<lparr>range_inf = 10, range_sup = 20, band_value = 2 / 10\<rparr>] \<and>
   accuracy (Some thermo) (Some ''temperature'') 12 = 2 / 10 \<and>
   thermo ''humidity'' = None \<and>
   accuracy (Some thermo) (Some ''humidity'') 12 = 0"
proof -
  have t: "thermo ''temperature'' =
     Some [\<lparr>range_inf = 0, range_sup = 10, band_value = 1 / 10\<rparr>,
           \<lparr>range_inf = 10, range_sup = 20, band_value = 2 / 10\<rparr>]"
    by (simp add: thermo_def)
  have h: "thermo ''humidity'' = None" by (simp add: thermo_def)
  have f: "find (\<lambda>b. range_inf b \<le> (12::real) \<and> 12 < range_sup b)
      [\<lparr>range_inf = 0, range_sup = 10, band_value = 1 / 10\<rparr>,
       \<lparr>range_inf = 10, range_sup = 20, band_value = 2 / 10\<rparr>]
     = Some \<lparr>range_inf = 10, range_sup = 20, band_value = 2 / 10\<rparr>"
    by simp
  have a: "accuracy (Some thermo) (Some ''temperature'') 12 = 2 / 10"
    using accuracy_resolution [where r = 12 and dv = thermo and t = "''temperature''"
      and bs = "[\<lparr>range_inf = 0, range_sup = 10, band_value = 1 / 10\<rparr>,
        \<lparr>range_inf = 10, range_sup = 20, band_value = 2 / 10\<rparr>]"
      and b = "\<lparr>range_inf = 10, range_sup = 20, band_value = 2 / 10\<rparr>"] t f
    by simp
  have b: "accuracy (Some thermo) (Some ''humidity'') 12 = 0"
    using accuracy_resolution [where r = 12 and dv = thermo and t = "''humidity''"] h
    by simp
  from t h a b show ?thesis by simp
qed

text \<open>
  Claim C10 fails for a topic without samples while the store holds samples of a topic
  that sorts after it. The first-sample request has a \<open>startkey\<close> and no \<open>endkey\<close>, and
  \<open>get_first_doc\<close> never looks at the topic of the row it is given. With one sample of
  \<open>temp/room2\<close> in the store and none of \<open>temp/room1\<close>, the lookup for \<open>temp/room1\<close>
  returns the timestamp of that sample, and five minutes later \<open>get_measures_slot\<close>
  returns \<open>None\<close>; no \<open>TypeError\<close> is raised.
\<close>

theorem later_topic_answers:
  "''temp/room1'' \<notin> set (map (fst \<circ> key) [sample_row ''temp/room2'' ''2020-12-06T10:00:00'' 20]) \<and>
   get_first_doc sample_lib
     (sample_dbs [sample_row ''temp/room2'' ''2020-12-06T10:00:00'' 20] False False [])
     ''temp/room1'' = Inr (Some (naive (on_2020_12_06 10 0 0))) \<and>
   get_measures_slot sample_lib (on_2020_12_06 10 5 0)
     (sample_dbs [sample_row ''temp/room2'' ''2020-12-06T10:00:00'' 20] False False [])
     ''temp/room1'' 10 = Inr None"
proof -
  let ?dbs = "sample_dbs [sample_row ''temp/room2'' ''2020-12-06T10:00:00'' 20] False False []"
  have n: "''temp/room1'' \<notin> set (map (fst \<circ> key) [sample_row ''temp/room2'' ''2020-12-06T10:00:00'' 20])"
    by (simp add: sample_row_def)
  have f: "get_first_doc sample_lib ?dbs ''temp/room1'' = Inr (Some (naive (on_2020_12_06 10 0 0)))"
    by (simp add: get_first_doc_def first_doc_params_def sample_dbs_def sample_view_def
        sample_row_def sample_lib_def in_keys_def)
  have g: "get_measures_slot sample_lib (on_2020_12_06 10 5 0) ?dbs ''temp/room1'' 10 = Inr None"
    by (simp add: get_measures_slot_def f timedelta_minutes_def timedelta_max_days_def
        datetime_add_def datetime_max_def datetime_ge_def naive_def on_2020_12_06_def)
  from n f g show ?thesis by simp
qed

text \<open>
  Claim C10, as the code has it. When the first-sample request for a topic, with
  \<open>startkey [topic]\<close>, no \<open>endkey\<close> and \<open>limit 1\<close>, is answered with no rows, or with an
  answer without \<open>rows\<close>, or raises, \<open>get_first_doc\<close> returns \<open>None\<close>, and
  \<open>get_measures_slot\<close> does not return \<open>None\<close>: the addition of the window length to
  \<open>None\<close> raises \<open>TypeError\<close>, which leaves the function. This needs a window length
  of which \<open>timedelta\<close> can be built, as the ten minutes of \<open>main\<close>; for any other
  length the \<open>OverflowError\<close> of \<open>timedelta\<close> leaves the function instead.
\<close>

theorem empty_store_raises:
  assumes "ddoc_view (db_realtime dbs)
             \<lparr>startkey = [tpc], endkey = None, limit = Some 1, include_docs = False\<rparr> = Rows [] \<or>
           ddoc_view (db_realtime dbs)
             \<lparr>startkey = [tpc], endkey = None, limit = Some 1, include_docs = False\<rparr> = NoRows \<or>
           ddoc_view (db_realtime dbs)
             \<lparr>startkey = [tpc], endkey = None, limit = Some 1, include_docs = False\<rparr> = Raises"
  shows "get_first_doc lib dbs tpc = Inr None \<and>
         (- 999999999 \<le> timespan div 1440 \<and> timespan div 1440 \<le> 999999999 \<longrightarrow>
            get_measures_slot lib now dbs tpc timespan = Inl TypeError) \<and>
         (\<not> (- 999999999 \<le> timespan div 1440 \<and> timespan div 1440 \<le> 999999999) \<longrightarrow>
            get_measures_slot lib now dbs tpc timespan = Inl OverflowError)"
proof -
  from assms have f: "get_first_doc lib dbs tpc = Inr None"
    by (auto simp: get_first_doc_def first_doc_params_def)
  show ?thesis
    by (simp add: f get_measures_slot_def timedelta_minutes_def timedelta_max_days_def)
qed

text \<open>
  The theorem at the sample store holding no samples at all, for a window of ten minutes
  and for one of a thousand million days.
\<close>

theorem empty_store_raises_witness:
  "ddoc_view (db_realtime (sample_dbs [] False False []))
     \<lparr>startkey = [''temp/room1''], endkey = None, limit = Some 1, include_docs = False\<rparr> = Rows [] \<and>
   get_first_doc sample_lib (sample_dbs [] False False []) ''temp/room1'' = Inr None \<and>
   get_measures_slot sample_lib (on_2020_12_06 10 11 40) (sample_dbs [] False False [])
     ''temp/room1'' 10 = Inl TypeError \<and>
   get_measures_slot sample_lib (on_2020_12_06 10 11 40) (sample_dbs [] False False [])
     ''temp/room1'' 1440000000000 = Inl OverflowError"
proof -
  have h: "ddoc_view (db_realtime (sample_dbs [] False False []))
     \<lparr>startkey = [''temp/room1''], endkey = None, limit = Some 1, include_docs = False\<rparr> = Rows []"
    by (simp add: sample_dbs_def sample_view_def)
  from h
    empty_store_raises [where dbs = "sample_dbs [] False False []" and tpc = "''temp/room1''"
      and lib = sample_lib and now = "on_2020_12_06 10 11 40" and timespan = 10]
    empty_store_raises [where dbs = "sample_dbs [] False False []" and tpc = "''temp/room1''"
      and lib = sample_lib and now = "on_2020_12_06 10 11 40" and timespan = 1440000000000]
  show ?thesis by simp
qed

text \<open>
  Claim C5 as stated fails where the window request raises: the earliest sample is of
  10:00:00, the window of ten minutes has closed at 10:11:40, and the function still
  returns \<open>None\<close>, the value that means "not ready".
\<close>

theorem window_query_fails:
  "get_first_doc sample_lib
     (sample_dbs [sample_row ''temp/room1'' ''2020-12-06T10:00:00'' 20,
                  sample_row ''temp/room1'' ''2020-12-06T10:01:00'' 21] True False [])
     ''temp/room1'' = Inr (Some (naive (on_2020_12_06 10 0 0))) \<and>
   on_2020_12_06 10 0 0 + 60000000 * 10 < on_2020_12_06 10 11 40 \<and>
   get_measures_slot sample_lib (on_2020_12_06 10 11 40)
     (sample_dbs [sample_row ''temp/room1'' ''2020-12-06T10:00:00'' 20,
                  sample_row ''temp/room1'' ''2020-12-06T10:01:00'' 21] True False [])
     ''temp/room1'' 10 = Inr None"
proof -
  let ?dbs = "sample_dbs [sample_row ''temp/room1'' ''2020-12-06T10:00:00'' 20,
                  sample_row ''temp/room1'' ''2020-12-06T10:01:00'' 21] True False []"
  have f: "get_first_doc sample_lib ?dbs ''temp/room1'' = Inr (Some (naive (on_2020_12_06 10 0 0)))"
    by (simp add: get_first_doc_def first_doc_params_def sample_dbs_def sample_view_def
        sample_row_def sample_lib_def in_keys_def)
  have l: "on_2020_12_06 10 0 0 + 60000000 * 10 < on_2020_12_06 10 11 40"
    by (simp add: on_2020_12_06_def)
  have v: "ddoc_view (db_realtime ?dbs) (slot_params sample_lib ''temp/room1'' s e) = Raises"
    for s e
    by (simp add: sample_dbs_def sample_view_def slot_params_def)
  have g: "get_measures_slot sample_lib (on_2020_12_06 10 11 40) ?dbs ''temp/room1'' 10 = Inr None"
    by (simp add: get_measures_slot_def f v timedelta_minutes_def timedelta_max_days_def
        datetime_add_def datetime_max_def datetime_ge_def naive_def on_2020_12_06_def)
  from f l g show ?thesis by simp
qed

text \<open>
  Claim C5, as the code has it. Let the earliest sample that the first-sample request
  finds have the timestamp \<open>start\<close>, and let \<open>D\<close> be the window length in minutes.
  \<^item> When \<open>timedelta(minutes=D)\<close> cannot be built, or \<open>start + D\<close> is not a datetime of the
    years 1 to 9999, \<open>get_measures_slot\<close> raises \<open>OverflowError\<close>.
  \<^item> Otherwise, when \<open>start\<close> carries an offset from UTC, the comparison with the naive
    \<open>now\<close> raises \<open>TypeError\<close>.
  \<^item> Otherwise, when \<open>start + D \<ge> now\<close>, it returns \<open>None\<close>.
  \<^item> Otherwise it asks the hot store for the samples with keys from \<open>[topic, start]\<close>
    to \<open>[topic, end]\<close>, documents included and without a limit, where \<open>end\<close> is naive and
    \<open>end - start = D\<close> minutes. It returns the rows of the answer, not the interval; when
    the request raises or the answer has no \<open>rows\<close> it returns \<open>None\<close> again, and when
    the answer is not JSON, the error of \<open>result.json()\<close> leaves the function.
\<close>

theorem window_selection:
  assumes "get_first_doc lib dbs tpc = Inr (Some start)"
  shows "let fin = dt_micro start + 60000000 * D;
             fits = (- 999999999 \<le> D div 1440 \<and> D div 1440 \<le> 999999999 \<and>
                     0 \<le> fin \<and> fin \<le> 315537897599999999)
         in (\<not> fits \<longrightarrow> get_measures_slot lib now dbs tpc D = Inl OverflowError) \<and>
            (fits \<and> dt_offset start \<noteq> None \<longrightarrow>
               get_measures_slot lib now dbs tpc D = Inl TypeError) \<and>
            (fits \<and> dt_offset start = None \<and> fin \<ge> now \<longrightarrow>
               get_measures_slot lib now dbs tpc D = Inr None) \<and>
            (fits \<and> dt_offset start = None \<and> fin < now \<longrightarrow>
               (\<exists>e. dt_micro e - dt_micro start = 60000000 * D \<and> dt_offset e = None \<and>
                    get_measures_slot lib now dbs tpc D =
                      (case ddoc_view (db_realtime dbs)
                              \<lparr>startkey = [tpc, isoformat lib start],
                               endkey = Some [tpc, isoformat lib e],
                               limit = None, include_docs = True\<rparr> of
                         Rows rows \<Rightarrow> Inr (Some rows)
                       | NoRows \<Rightarrow> Inr None
                       | Raises \<Rightarrow> Inr None
                       | NotJSON \<Rightarrow> Inl JSONDecodeError)))"
proof -
  define fin where "fin = dt_micro start + 60000000 * D"
  define fits where "fits \<longleftrightarrow> - 999999999 \<le> D div 1440 \<and> D div 1440 \<le> 999999999 \<and>
                     0 \<le> fin \<and> fin \<le> 315537897599999999"
  have a: "get_measures_slot lib now dbs tpc D = Inl OverflowError" if "\<not> fits"
    using that assms
    by (auto simp: fits_def fin_def get_measures_slot_def timedelta_minutes_def
        timedelta_max_days_def datetime_add_def datetime_max_def)
  have b: "get_measures_slot lib now dbs tpc D = Inl TypeError"
    if "fits" "dt_offset start \<noteq> None"
    using that assms
    by (auto simp: fits_def fin_def get_measures_slot_def timedelta_minutes_def
        timedelta_max_days_def datetime_add_def datetime_max_def datetime_ge_def naive_def)
  have c: "get_measures_slot lib now dbs tpc D = Inr None"
    if "fits" "dt_offset start = None" "fin \<ge> now"
    using that assms
    by (simp add: fits_def fin_def get_measures_slot_def timedelta_minutes_def
        timedelta_max_days_def datetime_add_def datetime_max_def datetime_ge_def naive_def)
  have d: "\<exists>e. dt_micro e - dt_micro start = 60000000 * D \<and> dt_offset e = None \<and>
                    get_measures_slot lib now dbs tpc D =
                      (case ddoc_view (db_realtime dbs)
                              \<lparr>startkey = [tpc, isoformat lib start],
                               endkey = Some [tpc, isoformat lib e],
                               limit = None, include_docs = True\<rparr> of
                         Rows rows \<Rightarrow> Inr (Some rows)
                       | NoRows \<Rightarrow> Inr None
                       | Raises \<Rightarrow> Inr None
                       | NotJSON \<Rightarrow> Inl JSONDecodeError)"
    if "fits" "dt_offset start = None" "fin < now"
    using that assms
    by (intro exI [of _ "start\<lparr>dt_micro := dt_micro start + 60000000 * D\<rparr>"])
       (simp add: fits_def fin_def get_measures_slot_def timedelta_minutes_def
        timedelta_max_days_def datetime_add_def datetime_max_def datetime_ge_def naive_def
        slot_params_def split: view_answer.splits)
  from a b c d show ?thesis
    unfolding Let_def fits_def fin_def by blast
qed

text \<open>
  The theorem at the sample store with two samples: for ten-minute windows, once after
  the window has closed and once before; for a window of 10000000000 minutes, which ends
  after the year 9999; and at a store whose first sample carries the offset \<open>+01:00\<close>.
\<close>

theorem window_selection_witness:
  "get_measures_slot sample_lib (on_2020_12_06 10 11 40)
     (sample_dbs [sample_row ''temp/room1'' ''2020-12-06T10:00:00'' 20,
                  sample_row ''temp/room1'' ''2020-12-06T10:01:00'' 21] False False [])
     ''temp/room1'' 10 =
     Inr (Some [sample_row ''temp/room1'' ''2020-12-06T10:00:00'' 20,
                sample_row ''temp/room1'' ''2020-12-06T10:01:00'' 21]) \<and>
   get_measures_slot sample_lib (on_2020_12_06 10 8 20)
     (sample_dbs [sample_row ''temp/room1'' ''2020-12-06T10:00:00'' 20,
                  sample_row ''temp/room1'' ''2020-12-06T10:01:00'' 21] False False [])
     ''temp/room1'' 10 = Inr None \<and>
   get_measures_slot sample_lib (on_2020_12_06 10 11 40)
     (sample_dbs [sample_row ''temp/room1'' ''2020-12-06T10:00:00'' 20,
                  sample_row ''temp/room1'' ''2020-12-06T10:01:00'' 21] False False [])
     ''temp/room1'' 10000000000 = Inl OverflowError \<and>
   get_measures_slot sample_lib (on_2020_12_06 10 11 40)
     (sample_dbs [sample_row ''temp/room1'' ''2020-12-06T10:00:00+01:00'' 20] False False [])
     ''temp/room1'' 10 = Inl TypeError"
proof -
  let ?rows = "[sample_row ''temp/room1'' ''2020-12-06T10:00:00'' 20,
                sample_row ''temp/room1'' ''2020-12-06T10:01:00'' 21]"
  let ?dbs = "sample_dbs ?rows False False []"
  let ?aware = "sample_dbs [sample_row ''temp/room1'' ''2020-12-06T10:00:00+01:00'' 20]
                  False False []"
  have h: "get_first_doc sample_lib ?dbs ''temp/room1'' =
      Inr (Some (naive (on_2020_12_06 10 0 0)))"
    by (simp add: get_first_doc_def first_doc_params_def sample_dbs_def sample_view_def
        sample_row_def sample_lib_def in_keys_def)
  have k: "get_first_doc sample_lib ?aware ''temp/room1'' =
      Inr (Some \<lparr>dt_micro = on_2020_12_06 10 0 0, dt_offset = Some 3600000000\<rparr>)"
    by (simp add: get_first_doc_def first_doc_params_def sample_dbs_def sample_view_def
        sample_row_def sample_lib_def in_keys_def)
  have e: "e = naive (on_2020_12_06 10 10 0)"
    if "dt_micro e - dt_micro (naive (on_2020_12_06 10 0 0)) = 60000000 * 10"
       "dt_offset e = None" for e
    using that by (cases e) (simp add: naive_def on_2020_12_06_def)
  have v: "ddoc_view (db_realtime ?dbs)
      \<lparr>startkey = [''temp/room1'', isoformat sample_lib (naive (on_2020_12_06 10 0 0))],
       endkey = Some [''temp/room1'', isoformat sample_lib (naive (on_2020_12_06 10 10 0))],
       limit = None, include_docs = True\<rparr> = Rows ?rows"
    by (simp add: sample_dbs_def sample_view_def sample_row_def sample_lib_def in_keys_def
        naive_def on_2020_12_06_def)
  have a: "get_measures_slot sample_lib (on_2020_12_06 10 11 40) ?dbs ''temp/room1'' 10 =
      Inr (Some ?rows)"
  proof -
    from window_selection [OF h, where D = 10 and now = "on_2020_12_06 10 11 40"]
    obtain e where "dt_micro e - dt_micro (naive (on_2020_12_06 10 0 0)) = 60000000 * 10"
      and "dt_offset e = None"
      and g: "get_measures_slot sample_lib (on_2020_12_06 10 11 40) ?dbs ''temp/room1'' 10 =
        (case ddoc_view (db_realtime ?dbs)
                \<lparr>startkey = [''temp/room1'', isoformat sample_lib (naive (on_2020_12_06 10 0 0))],
                 endkey = Some [''temp/room1'', isoformat sample_lib e],
                 limit = None, include_docs = True\<rparr> of
           Rows rows \<Rightarrow> Inr (Some rows)
         | NoRows \<Rightarrow> Inr None
         | Raises \<Rightarrow> Inr None
         | NotJSON \<Rightarrow> Inl JSONDecodeError)"
      by (auto simp: Let_def naive_def on_2020_12_06_def)
    then have "e = naive (on_2020_12_06 10 10 0)" by (intro e)
    with g v show ?thesis by simp
  qed
  have b: "get_measures_slot sample_lib (on_2020_12_06 10 8 20) ?dbs ''temp/room1'' 10 = Inr None"
    using window_selection [OF h, where D = 10 and now = "on_2020_12_06 10 8 20"]
    by (simp add: Let_def naive_def on_2020_12_06_def)
  have c: "get_measures_slot sample_lib (on_2020_12_06 10 11 40) ?dbs ''temp/room1'' 10000000000 =
      Inl OverflowError"
    using window_selection [OF h, where D = 10000000000 and now = "on_2020_12_06 10 11 40"]
    by (simp add: Let_def naive_def on_2020_12_06_def)
  have d: "get_measures_slot sample_lib (on_2020_12_06 10 11 40) ?aware ''temp/room1'' 10 =
      Inl TypeError"
    using window_selection [OF k, where D = 10 and now = "on_2020_12_06 10 11 40"]
    by (simp add: Let_def on_2020_12_06_def)
  from a b c d show ?thesis by simp
qed

subsection \<open>The first loop of the aggregation\<close>

text \<open>
  What one turn of the loop does to each local variable, and what the variables hold
  after the loop: the values with their devices, the type of the first sample, every
  device of the window with its document, and the running extremes.
\<close>

lemma series_loop_snoc:
  "series_loop dbs (data @ [x]) = series_step dbs (series_loop dbs data) x"
  by (simp add: series_loop_def)


lemma series_loop_single: "series_loop dbs [x] = series_step dbs series_init x"
  by (simp add: series_loop_def)

lemma min_value_step:
  "min_value (series_step dbs st x) =
     (case min_value st of
        None \<Rightarrow> Some (row_value x)
      | Some m \<Rightarrow> if row_value x < m then Some (row_value x) else Some m)"
  by (simp add: series_step_def Let_def split: option.splits)

lemma min_timestamp_step:
  "min_timestamp (series_step dbs st x) =
     (case min_value st of
        None \<Rightarrow> timestamp (row_doc x)
      | Some m \<Rightarrow> if row_value x < m then timestamp (row_doc x) else min_timestamp st)"
  by (simp add: series_step_def Let_def split: option.splits)

lemma max_value_step:
  "max_value (series_step dbs st x) =
     (case max_value st of
        None \<Rightarrow> Some (row_value x)
      | Some m \<Rightarrow> if row_value x > m then Some (row_value x) else Some m)"
  by (simp add: series_step_def Let_def split: option.splits)

lemma max_timestamp_step:
  "max_timestamp (series_step dbs st x) =
     (case max_value st of
        None \<Rightarrow> timestamp (row_doc x)
      | Some m \<Rightarrow> if row_value x > m then timestamp (row_doc x) else max_timestamp st)"
  by (simp add: series_step_def Let_def split: option.splits)







lemma find_snoc_old:
  "find P xs = Some r \<Longrightarrow> find P (xs @ [x]) = Some r"
  by (induction xs) auto

lemma find_snoc_new:
  "\<forall>y\<in>set xs. \<not> P y \<Longrightarrow> P x \<Longrightarrow> find P (xs @ [x]) = Some x"
  by (induction xs) auto

lemma series_loop_min:
  "data \<noteq> [] \<Longrightarrow>
   \<exists>r. find (\<lambda>r. row_value r = Min (row_value ` set data)) data = Some r \<and>
       min_value (series_loop dbs data) = Some (row_value r) \<and>
       min_timestamp (series_loop dbs data) = timestamp (row_doc r)"
proof (induction data rule: rev_induct)
  case Nil
  then show ?case by simp
next
  case (snoc x data)
  show ?case
  proof (cases "data = []")
    case True
    then show ?thesis
      by (simp add: series_loop_single min_value_step min_timestamp_step
          series_init_def)
  next
    case False
    with snoc.IH obtain r where
      f: "find (\<lambda>r. row_value r = Min (row_value ` set data)) data = Some r" and
      v: "min_value (series_loop dbs data) = Some (row_value r)" and
      t: "min_timestamp (series_loop dbs data) = timestamp (row_doc r)"
      by blast
    from f have rm: "row_value r = Min (row_value ` set data)"
      by (auto dest: find_Some_iff [THEN iffD1])
    have fin: "finite (row_value ` set data)" and ne: "row_value ` set data \<noteq> {}"
      using False by auto
    have M: "Min (row_value ` set (data @ [x])) = min (row_value x) (Min (row_value ` set data))"
      using fin ne by simp
    show ?thesis
    proof (cases "row_value x < row_value r")
      case True
      with rm M have m: "Min (row_value ` set (data @ [x])) = row_value x" by simp
      have "\<forall>y\<in>set data. row_value y \<noteq> row_value x"
      proof
        fix y assume "y \<in> set data"
        then have "Min (row_value ` set data) \<le> row_value y" using fin by simp
        with True rm show "row_value y \<noteq> row_value x" by simp
      qed
      then have "find (\<lambda>r. row_value r = row_value x) (data @ [x]) = Some x"
        by (intro find_snoc_new) auto
      with m True v t show ?thesis
        by (simp add: series_loop_snoc min_value_step min_timestamp_step)
    next
      case False
      with rm M have m: "Min (row_value ` set (data @ [x])) = Min (row_value ` set data)"
        by simp
      from f have "find (\<lambda>r. row_value r = Min (row_value ` set data)) (data @ [x]) = Some r"
        by (rule find_snoc_old)
      with m False v t show ?thesis
        by (simp add: series_loop_snoc min_value_step min_timestamp_step)
    qed
  qed
qed

lemma series_loop_max:
  "data \<noteq> [] \<Longrightarrow>
   \<exists>r. find (\<lambda>r. row_value r = Max (row_value ` set data)) data = Some r \<and>
       max_value (series_loop dbs data) = Some (row_value r) \<and>
       max_timestamp (series_loop dbs data) = timestamp (row_doc r)"
proof (induction data rule: rev_induct)
  case Nil
  then show ?case by simp
next
  case (snoc x data)
  show ?case
  proof (cases "data = []")
    case True
    then show ?thesis
      by (simp add: series_loop_single max_value_step max_timestamp_step
          series_init_def)
  next
    case False
    with snoc.IH obtain r where
      f: "find (\<lambda>r. row_value r = Max (row_value ` set data)) data = Some r" and
      v: "max_value (series_loop dbs data) = Some (row_value r)" and
      t: "max_timestamp (series_loop dbs data) = timestamp (row_doc r)"
      by blast
    from f have rm: "row_value r = Max (row_value ` set data)"
      by (auto dest: find_Some_iff [THEN iffD1])
    have fin: "finite (row_value ` set data)" and ne: "row_value ` set data \<noteq> {}"
      using False by auto
    have M: "Max (row_value ` set (data @ [x])) = max (row_value x) (Max (row_value ` set data))"
      using fin ne by simp
    show ?thesis
    proof (cases "row_value x > row_value r")
      case True
      with rm M have m: "Max (row_value ` set (data @ [x])) = row_value x" by simp
      have "\<forall>y\<in>set data. row_value y \<noteq> row_value x"
      proof
        fix y assume "y \<in> set data"
        then have "row_value y \<le> Max (row_value ` set data)" using fin by simp
        with True rm show "row_value y \<noteq> row_value x" by simp
      qed
      then have "find (\<lambda>r. row_value r = row_value x) (data @ [x]) = Some x"
        by (intro find_snoc_new) auto
      with m True v t show ?thesis
        by (simp add: series_loop_snoc max_value_step max_timestamp_step)
    next
      case False
      with rm M have m: "Max (row_value ` set (data @ [x])) = Max (row_value ` set data)"
        by simp
      from f have "find (\<lambda>r. row_value r = Max (row_value ` set data)) (data @ [x]) = Some r"
        by (rule find_snoc_old)
      with m False v t show ?thesis
        by (simp add: series_loop_snoc max_value_step max_timestamp_step)
    qed
  qed
qed

lemma process_series_extremes:
  "process_series lib dbs tpc data = Inr m \<Longrightarrow>
   meas_min_value m = (min_value (series_loop dbs data), min_timestamp (series_loop dbs data)) \<and>
   meas_max_value m = (max_value (series_loop dbs data), max_timestamp (series_loop dbs data))"
  by (auto simp: process_series_def Let_def split: sum.splits option.splits)

subsection \<open>The mean with uncertainty\<close>







subsection \<open>Evaluations at the sample deployment\<close>

text \<open>
  The window of ten minutes that opens at 10:00:00, looked at from 10:11:40, and the
  aggregation of the windows that the theorems below use.
\<close>

lemma first_sample_10_00:
  "get_first_doc sample_lib
     (sample_dbs (sample_row ''temp/room1'' ''2020-12-06T10:00:00'' v # rows) sf insf rf)
     ''temp/room1'' = Inr (Some (naive (on_2020_12_06 10 0 0)))"
  by (simp add: get_first_doc_def first_doc_params_def sample_dbs_def sample_view_def
      sample_row_def sample_lib_def in_keys_def)

lemma slot_after_10_00:
  assumes "get_first_doc sample_lib dbs ''temp/room1'' = Inr (Some (naive (on_2020_12_06 10 0 0)))"
  shows "get_measures_slot sample_lib (on_2020_12_06 10 11 40) dbs ''temp/room1'' 10 =
     (case ddoc_view (db_realtime dbs)
        \<lparr>startkey = [''temp/room1'', ''2020-12-06T10:00:00''],
         endkey = Some [''temp/room1'', ''2020-12-06T10:10:00''],
         limit = None, include_docs = True\<rparr> of
        Raises \<Rightarrow> Inr None
      | NotJSON \<Rightarrow> Inl JSONDecodeError
      | NoRows \<Rightarrow> Inr None
      | Rows rows \<Rightarrow> Inr (Some rows))"
proof -
  have p: "slot_params sample_lib ''temp/room1'' (naive (on_2020_12_06 10 0 0))
      (naive (on_2020_12_06 10 10 0)) =
        \<lparr>startkey = [''temp/room1'', ''2020-12-06T10:00:00''],
         endkey = Some [''temp/room1'', ''2020-12-06T10:10:00''],
         limit = None, include_docs = True\<rparr>"
    by (simp add: slot_params_def sample_lib_def naive_def on_2020_12_06_def)
  have e: "datetime_add (naive (on_2020_12_06 10 0 0)) 600000000 =
      Inr (naive (on_2020_12_06 10 10 0))"
    by (simp add: datetime_add_def datetime_max_def naive_def on_2020_12_06_def)
  have c: "datetime_ge (naive (on_2020_12_06 10 10 0)) (naive (on_2020_12_06 10 11 40)) =
      Inr False"
    by (simp add: datetime_ge_def naive_def on_2020_12_06_def)
  have t: "timedelta_minutes 10 = Inr 600000000"
    by (simp add: timedelta_minutes_def timedelta_max_days_def)
  show ?thesis
    by (simp add: get_measures_slot_def assms t e c p)
qed

lemma min2: "min ''2020-12-06T10:01:00'' ''2020-12-06T10:00:00'' = ''2020-12-06T10:00:00''"
  by (simp add: min_def)

lemma max2: "max ''2020-12-06T10:01:00'' ''2020-12-06T10:00:00'' = ''2020-12-06T10:01:00''"
  by (simp add: max_def)

lemma min3: "min ''2020-12-06T10:02:00'' ''2020-12-06T10:00:00'' = ''2020-12-06T10:00:00''"
  by (simp add: min_def)

lemma max3: "max ''2020-12-06T10:02:00'' ''2020-12-06T10:01:00'' = ''2020-12-06T10:02:00''"
  by (simp add: max_def)

lemma min4:
  "min ''2020-12-06T10:03:00'' (min ''2020-12-06T10:02:00''
     (min ''2020-12-06T10:01:00'' ''2020-12-06T10:00:00'')) = ''2020-12-06T10:00:00''"
  by (simp add: min_def)

lemma max4:
  "max ''2020-12-06T10:03:00'' (max ''2020-12-06T10:02:00''
     (max ''2020-12-06T10:01:00'' ''2020-12-06T10:00:00'')) = ''2020-12-06T10:03:00''"
  by (simp add: max_def)

lemma loop1:
  "series_loop (sample_dbs rs a b c) [sample_row ''temp/room1'' ''2020-12-06T10:00:00'' 20] =
     \<lparr>devices = [''dht22'' \<mapsto> Some thermo], min_value = Some 20,
      min_timestamp = ''2020-12-06T10:00:00'', max_value = Some 20,
      max_timestamp = ''2020-12-06T10:00:00'',
      data_values = [(20, ''dht22'')], measure_type = Some ''temperature'',
      timestamps = [''2020-12-06T10:00:00'']\<rparr>"
  by (simp add: series_loop_def series_step_def series_init_def get_device_def
      sample_dbs_def sample_row_def Let_def)

lemma loop2:
  "series_loop (sample_dbs rs a b c)
     [sample_row ''temp/room1'' ''2020-12-06T10:00:00'' 20,
      sample_row ''temp/room1'' ''2020-12-06T10:01:00'' 21] =
     \<lparr>devices = [''dht22'' \<mapsto> Some thermo], min_value = Some 20,
      min_timestamp = ''2020-12-06T10:00:00'', max_value = Some 21,
      max_timestamp = ''2020-12-06T10:01:00'',
      data_values = [(20, ''dht22''), (21, ''dht22'')], measure_type = Some ''temperature'',
      timestamps = [''2020-12-06T10:00:00'', ''2020-12-06T10:01:00'']\<rparr>"
  by (simp add: series_loop_def series_step_def series_init_def get_device_def
      sample_dbs_def sample_row_def Let_def)

lemma loop3:
  "series_loop (sample_dbs rs a b c)
     [sample_row ''temp/room1'' ''2020-12-06T10:00:00'' 20,
      sample_row ''temp/room1'' ''2020-12-06T10:01:00'' (41 / 2),
      sample_row ''temp/room1'' ''2020-12-06T10:02:00'' 21] =
     \<lparr>devices = [''dht22'' \<mapsto> Some thermo], min_value = Some 20,
      min_timestamp = ''2020-12-06T10:00:00'', max_value = Some 21,
      max_timestamp = ''2020-12-06T10:02:00'',
      data_values = [(20, ''dht22''), (41 / 2, ''dht22''), (21, ''dht22'')],
      measure_type = Some ''temperature'',
      timestamps = [''2020-12-06T10:00:00'', ''2020-12-06T10:01:00'', ''2020-12-06T10:02:00'']\<rparr>"
  by (simp add: series_loop_def series_step_def series_init_def get_device_def
      sample_dbs_def sample_row_def Let_def)

lemma loop4:
  "series_loop (sample_dbs rs a b c)
     [sample_row ''temp/room1'' ''2020-12-06T10:00:00'' 20,
      sample_row ''temp/room1'' ''2020-12-06T10:01:00'' 21,
      sample_row ''temp/room1'' ''2020-12-06T10:02:00'' 20,
      sample_row ''temp/room1'' ''2020-12-06T10:03:00'' 21] =
     \<lparr>devices = [''dht22'' \<mapsto> Some thermo], min_value = Some 20,
      min_timestamp = ''2020-12-06T10:00:00'', max_value = Some 21,
      max_timestamp = ''2020-12-06T10:01:00'',
      data_values = [(20, ''dht22''), (21, ''dht22''), (20, ''dht22''), (21, ''dht22'')],
      measure_type = Some ''temperature'',
      timestamps = [''2020-12-06T10:00:00'', ''2020-12-06T10:01:00'',
                    ''2020-12-06T10:02:00'', ''2020-12-06T10:03:00'']\<rparr>"
  by (simp add: series_loop_def series_step_def series_init_def get_device_def
      sample_dbs_def sample_row_def Let_def)



lemma proc2:
  "\<exists>m. process_series sample_lib (sample_dbs rs a b c) ''temp/room1''
     [sample_row ''temp/room1'' ''2020-12-06T10:00:00'' 20,
      sample_row ''temp/room1'' ''2020-12-06T10:01:00'' 21] = Inr m \<and>
     meas_id m = ''temp/room1@2020-12-06T10:00:30''"
  by (simp add: process_series_def loop2 py_min_def py_max_def stats_mean_def stats_stdev_def
      min2 max2 accuracy_def thermo_def ufloat_def sample_lib_def timedelta_half_def Let_def
      datetime_sub_def datetime_add_def datetime_max_def naive_def on_2020_12_06_def)

lemma proc3:
  "\<exists>m. process_series sample_lib (sample_dbs rs a b c) ''temp/room1''
     [sample_row ''temp/room1'' ''2020-12-06T10:00:00'' 20,
      sample_row ''temp/room1'' ''2020-12-06T10:01:00'' (41 / 2),
      sample_row ''temp/room1'' ''2020-12-06T10:02:00'' 21] = Inr m \<and>
     meas_id m = ''temp/room1@2020-12-06T10:01:00''"
  by (simp add: process_series_def loop3 py_min_def py_max_def stats_mean_def stats_stdev_def
      min2 max2 min3 max3 accuracy_def thermo_def ufloat_def sample_lib_def timedelta_half_def
      Let_def datetime_sub_def datetime_add_def datetime_max_def naive_def on_2020_12_06_def)

lemma proc4:
  "\<exists>m. process_series sample_lib (sample_dbs rs a b c) ''temp/room1''
     [sample_row ''temp/room1'' ''2020-12-06T10:00:00'' 20,
      sample_row ''temp/room1'' ''2020-12-06T10:01:00'' 21,
      sample_row ''temp/room1'' ''2020-12-06T10:02:00'' 20,
      sample_row ''temp/room1'' ''2020-12-06T10:03:00'' 21] = Inr m"
  by (simp add: process_series_def loop4 py_min_def py_max_def stats_mean_def stats_stdev_def
      min4 max4 accuracy_def thermo_def ufloat_def sample_lib_def timedelta_half_def Let_def
      datetime_sub_def datetime_add_def datetime_max_def naive_def on_2020_12_06_def)



subsection \<open>Extremes\<close>

text \<open>
  Claim C8. For a window with at least one sample, the minimum that the loop holds at
  its end is the value of the first sample, in the order of the window, whose value is
  the least of the window, and the timestamp is the timestamp of that sample; likewise
  for the maximum. A later sample with the same value does not replace it, since the
  loop compares with \<open><\<close> and \<open>>\<close>. No sample lies below the minimum or above the
  maximum. Every record that \<open>process_series\<close> returns reports these two pairs.
\<close>

theorem extremes_first_seen:
  assumes "data \<noteq> []"
  shows "\<exists>rmin rmax.
     find (\<lambda>r. row_value r = Min (row_value ` set data)) data = Some rmin \<and>
     find (\<lambda>r. row_value r = Max (row_value ` set data)) data = Some rmax \<and>
     min_value (series_loop dbs data) = Some (row_value rmin) \<and>
     min_timestamp (series_loop dbs data) = timestamp (row_doc rmin) \<and>
     max_value (series_loop dbs data) = Some (row_value rmax) \<and>
     max_timestamp (series_loop dbs data) = timestamp (row_doc rmax) \<and>
     (\<forall>r\<in>set data. row_value rmin \<le> row_value r \<and> row_value r \<le> row_value rmax) \<and>
     (\<forall>m. process_series lib dbs tpc data = Inr m \<longrightarrow>
        meas_min_value m = (Some (row_value rmin), timestamp (row_doc rmin)) \<and>
        meas_max_value m = (Some (row_value rmax), timestamp (row_doc rmax)))"
proof -
  from assms series_loop_min [of data dbs] obtain rmin where
    f1: "find (\<lambda>r. row_value r = Min (row_value ` set data)) data = Some rmin" and
    v1: "min_value (series_loop dbs data) = Some (row_value rmin)" and
    t1: "min_timestamp (series_loop dbs data) = timestamp (row_doc rmin)"
    by blast
  from assms series_loop_max [of data dbs] obtain rmax where
    f2: "find (\<lambda>r. row_value r = Max (row_value ` set data)) data = Some rmax" and
    v2: "max_value (series_loop dbs data) = Some (row_value rmax)" and
    t2: "max_timestamp (series_loop dbs data) = timestamp (row_doc rmax)"
    by blast
  from f1 have m1: "row_value rmin = Min (row_value ` set data)"
    by (auto dest: find_Some_iff [THEN iffD1])
  from f2 have m2: "row_value rmax = Max (row_value ` set data)"
    by (auto dest: find_Some_iff [THEN iffD1])
  have b: "\<forall>r\<in>set data. row_value rmin \<le> row_value r \<and> row_value r \<le> row_value rmax"
    by (simp add: m1 m2)
  have p: "\<forall>m. process_series lib dbs tpc data = Inr m \<longrightarrow>
        meas_min_value m = (Some (row_value rmin), timestamp (row_doc rmin)) \<and>
        meas_max_value m = (Some (row_value rmax), timestamp (row_doc rmax))"
    using process_series_extremes [of lib dbs tpc data] v1 t1 v2 t2 by simp
  from f1 f2 v1 t1 v2 t2 b p show ?thesis by blast
qed

text \<open>
  The theorem at a window of four samples reading 20, 21, 20 and 21: the minimum is
  reported at 10:00:00 and not at 10:02:00, the maximum at 10:01:00 and not at 10:03:00.
\<close>

theorem extremes_first_seen_witness:
  "map_sum id meas_min_value
     (process_series sample_lib
        (sample_dbs [sample_row ''temp/room1'' ''2020-12-06T10:00:00'' 20,
                     sample_row ''temp/room1'' ''2020-12-06T10:01:00'' 21,
                     sample_row ''temp/room1'' ''2020-12-06T10:02:00'' 20,
                     sample_row ''temp/room1'' ''2020-12-06T10:03:00'' 21] False False [])
        ''temp/room1''
        [sample_row ''temp/room1'' ''2020-12-06T10:00:00'' 20,
         sample_row ''temp/room1'' ''2020-12-06T10:01:00'' 21,
         sample_row ''temp/room1'' ''2020-12-06T10:02:00'' 20,
         sample_row ''temp/room1'' ''2020-12-06T10:03:00'' 21]) =
     Inr (Some 20, ''2020-12-06T10:00:00'') \<and>
   map_sum id meas_max_value
     (process_series sample_lib
        (sample_dbs [sample_row ''temp/room1'' ''2020-12-06T10:00:00'' 20,
                     sample_row ''temp/room1'' ''2020-12-06T10:01:00'' 21,
                     sample_row ''temp/room1'' ''2020-12-06T10:02:00'' 20,
                     sample_row ''temp/room1'' ''2020-12-06T10:03:00'' 21] False False [])
        ''temp/room1''
        [sample_row ''temp/room1'' ''2020-12-06T10:00:00'' 20,
         sample_row ''temp/room1'' ''2020-12-06T10:01:00'' 21,
         sample_row ''temp/room1'' ''2020-12-06T10:02:00'' 20,
         sample_row ''temp/room1'' ''2020-12-06T10:03:00'' 21]) =
     Inr (Some 21, ''2020-12-06T10:01:00'')"
proof -
  let ?rows = "[sample_row ''temp/room1'' ''2020-12-06T10:00:00'' 20,
                sample_row ''temp/room1'' ''2020-12-06T10:01:00'' 21,
                sample_row ''temp/room1'' ''2020-12-06T10:02:00'' 20,
                sample_row ''temp/room1'' ''2020-12-06T10:03:00'' 21]"
  let ?dbs = "sample_dbs ?rows False False []"
  obtain m where p: "process_series sample_lib ?dbs ''temp/room1'' ?rows = Inr m"
    using proc4 by blast
  have lo: "Min (row_value ` set ?rows) = 20" and hi: "Max (row_value ` set ?rows) = 21"
    by (simp_all add: sample_row_def)
  have f1: "find (\<lambda>r. row_value r = 20) ?rows =
      Some (sample_row ''temp/room1'' ''2020-12-06T10:00:00'' 20)"
    by (simp add: sample_row_def)
  have f2: "find (\<lambda>r. row_value r = 21) ?rows =
      Some (sample_row ''temp/room1'' ''2020-12-06T10:01:00'' 21)"
    by (simp add: sample_row_def)
  have ne: "?rows \<noteq> []" by simp
  from extremes_first_seen [OF ne, where dbs = ?dbs and lib = sample_lib
      and tpc = "''temp/room1''"]
  have "meas_min_value m = (Some 20, ''2020-12-06T10:00:00'') \<and>
        meas_max_value m = (Some 21, ''2020-12-06T10:01:00'')"
    unfolding lo hi f1 f2 using p by (auto simp: sample_row_def)
  with p show ?thesis by simp
qed

subsection \<open>Stored value and accuracy\<close>




subsection \<open>Failures during the migration\<close>

text \<open>
  Claim C2. The store holds one sample of the topic, of 10:00:00, and the window of ten
  minutes has closed. \<open>process_series\<close> builds no record for the window of one sample:
  \<open>statistics.stdev\<close> raises \<open>StatisticsError\<close>. Nothing in \<open>archive_series\<close> handles it:
  the exception leaves the function with both stores as they were.
\<close>

theorem single_sample_window:
  "process_series sample_lib
     (sample_dbs [sample_row ''temp/room1'' ''2020-12-06T10:00:00'' 20] False False [])
     ''temp/room1'' [sample_row ''temp/room1'' ''2020-12-06T10:00:00'' 20] = Inl StatisticsError \<and>
   archive_series sample_lib (on_2020_12_06 10 11 40)
     (sample_dbs [sample_row ''temp/room1'' ''2020-12-06T10:00:00'' 20] False False [])
     ''temp/room1'' 10 =
     (Inl StatisticsError,
      sample_dbs [sample_row ''temp/room1'' ''2020-12-06T10:00:00'' 20] False False [])"
proof -
  let ?r = "sample_row ''temp/room1'' ''2020-12-06T10:00:00'' 20"
  let ?dbs = "sample_dbs [?r] False False []"
  have p: "process_series sample_lib ?dbs ''temp/room1'' [?r] = Inl StatisticsError"
    by (simp add: process_series_def loop1 py_min_def py_max_def stats_mean_def stats_stdev_def)
  have v: "ddoc_view (db_realtime ?dbs)
        \<lparr>startkey = [''temp/room1'', ''2020-12-06T10:00:00''],
         endkey = Some [''temp/room1'', ''2020-12-06T10:10:00''],
         limit = None, include_docs = True\<rparr> = Rows [?r]"
    by (simp add: sample_dbs_def sample_view_def in_keys_def sample_row_def)
  have g: "get_measures_slot sample_lib (on_2020_12_06 10 11 40) ?dbs ''temp/room1'' 10 =
      Inr (Some [?r])"
    by (simp add: slot_after_10_00 [OF first_sample_10_00] v)
  show ?thesis using p g by (simp add: archive_series_def)
qed

text \<open>
  Claim C1. The store holds two samples of the topic and the insert into the cold store
  fails. \<open>archive_series\<close> still returns \<open>True\<close>, the hot store has lost both samples,
  and the cold store holds no record of them.
\<close>

theorem failed_insert_still_deletes:
  "fst (archive_series sample_lib (on_2020_12_06 10 11 40)
     (sample_dbs [sample_row ''temp/room1'' ''2020-12-06T10:00:00'' 20,
                  sample_row ''temp/room1'' ''2020-12-06T10:01:00'' 21] False True [])
     ''temp/room1'' 10) = Inr True \<and>
   docs (db_realtime (snd (archive_series sample_lib (on_2020_12_06 10 11 40)
     (sample_dbs [sample_row ''temp/room1'' ''2020-12-06T10:00:00'' 20,
                  sample_row ''temp/room1'' ''2020-12-06T10:01:00'' 21] False True [])
     ''temp/room1'' 10))) = [] \<and>
   measures (db_datastore (snd (archive_series sample_lib (on_2020_12_06 10 11 40)
     (sample_dbs [sample_row ''temp/room1'' ''2020-12-06T10:00:00'' 20,
                  sample_row ''temp/room1'' ''2020-12-06T10:01:00'' 21] False True [])
     ''temp/room1'' 10))) = []"
proof -
  let ?rows = "[sample_row ''temp/room1'' ''2020-12-06T10:00:00'' 20,
                sample_row ''temp/room1'' ''2020-12-06T10:01:00'' 21]"
  let ?dbs = "sample_dbs ?rows False True []"
  have v: "ddoc_view (db_realtime ?dbs)
        \<lparr>startkey = [''temp/room1'', ''2020-12-06T10:00:00''],
         endkey = Some [''temp/room1'', ''2020-12-06T10:10:00''],
         limit = None, include_docs = True\<rparr> = Rows ?rows"
    by (simp add: sample_dbs_def sample_view_def in_keys_def sample_row_def)
  have g: "get_measures_slot sample_lib (on_2020_12_06 10 11 40) ?dbs ''temp/room1'' 10 =
      Inr (Some ?rows)"
    by (simp add: slot_after_10_00 [OF first_sample_10_00] v)
  obtain m where p: "process_series sample_lib ?dbs ''temp/room1'' ?rows = Inr m"
    using proc2 by blast
  have i: "datastore_insert (db_datastore ?dbs) m = Inl HTTPError"
    by (simp add: datastore_insert_def sample_dbs_def)
  have d: "delete_loop ?dbs ?rows =
      (Inr True, ?dbs\<lparr>db_realtime := (db_realtime ?dbs)\<lparr>docs := []\<rparr>\<rparr>)"
    by (simp add: realtime_get_def realtime_remove_def sample_dbs_def sample_row_def)
  have a: "archive_series sample_lib (on_2020_12_06 10 11 40) ?dbs ''temp/room1'' 10 =
      (Inr True, ?dbs\<lparr>db_realtime := (db_realtime ?dbs)\<lparr>docs := []\<rparr>\<rparr>)"
    by (simp only: archive_series_def g p i d sum.case option.case Let_def)
  show ?thesis by (simp add: a) (simp add: sample_dbs_def)
qed

text \<open>
  Claim C6. The store holds three samples of the topic and the deletion of the second
  fails. The exception leaves \<open>archive_series\<close>: the first sample is deleted, the second
  and the third remain in the hot store, and the record of the whole window is in the
  cold store.
\<close>

theorem failed_delete_aborts:
  "fst (archive_series sample_lib (on_2020_12_06 10 11 40)
     (sample_dbs [sample_row ''temp/room1'' ''2020-12-06T10:00:00'' 20,
                  sample_row ''temp/room1'' ''2020-12-06T10:01:00'' (41 / 2),
                  sample_row ''temp/room1'' ''2020-12-06T10:02:00'' 21]
        False False [''temp/room1@2020-12-06T10:01:00''])
     ''temp/room1'' 10) = Inl HTTPError \<and>
   docs (db_realtime (snd (archive_series sample_lib (on_2020_12_06 10 11 40)
     (sample_dbs [sample_row ''temp/room1'' ''2020-12-06T10:00:00'' 20,
                  sample_row ''temp/room1'' ''2020-12-06T10:01:00'' (41 / 2),
                  sample_row ''temp/room1'' ''2020-12-06T10:02:00'' 21]
        False False [''temp/room1@2020-12-06T10:01:00''])
     ''temp/room1'' 10))) =
     [(''temp/room1@2020-12-06T10:01:00'', ''1-a''), (''temp/room1@2020-12-06T10:02:00'', ''1-a'')] \<and>
   map meas_id (measures (db_datastore (snd (archive_series sample_lib (on_2020_12_06 10 11 40)
     (sample_dbs [sample_row ''temp/room1'' ''2020-12-06T10:00:00'' 20,
                  sample_row ''temp/room1'' ''2020-12-06T10:01:00'' (41 / 2),
                  sample_row ''temp/room1'' ''2020-12-06T10:02:00'' 21]
        False False [''temp/room1@2020-12-06T10:01:00''])
     ''temp/room1'' 10)))) = [''temp/room1@2020-12-06T10:01:00'']"
proof -
  let ?rows = "[sample_row ''temp/room1'' ''2020-12-06T10:00:00'' 20,
                sample_row ''temp/room1'' ''2020-12-06T10:01:00'' (41 / 2),
                sample_row ''temp/room1'' ''2020-12-06T10:02:00'' 21]"
  let ?dbs = "sample_dbs ?rows False False [''temp/room1@2020-12-06T10:01:00'']"
  have v: "ddoc_view (db_realtime ?dbs)
        \<lparr>startkey = [''temp/room1'', ''2020-12-06T10:00:00''],
         endkey = Some [''temp/room1'', ''2020-12-06T10:10:00''],
         limit = None, include_docs = True\<rparr> = Rows ?rows"
    by (simp add: sample_dbs_def sample_view_def in_keys_def sample_row_def)
  have g: "get_measures_slot sample_lib (on_2020_12_06 10 11 40) ?dbs ''temp/room1'' 10 =
      Inr (Some ?rows)"
    by (simp add: slot_after_10_00 [OF first_sample_10_00] v)
  obtain m where p: "process_series sample_lib ?dbs ''temp/room1'' ?rows = Inr m"
    and mi: "meas_id m = ''temp/room1@2020-12-06T10:01:00''"
    using proc3 by blast
  let ?dbs1 = "?dbs\<lparr>db_datastore := (db_datastore ?dbs)\<lparr>measures := [m]\<rparr>\<rparr>"
  have i: "datastore_insert (db_datastore ?dbs) m =
      Inr ((db_datastore ?dbs)\<lparr>measures := [m]\<rparr>)"
    by (simp add: datastore_insert_def sample_dbs_def)
  have d: "delete_loop ?dbs1 ?rows =
      (Inl HTTPError, ?dbs1\<lparr>db_realtime := (db_realtime ?dbs1)
         \<lparr>docs := [(''temp/room1@2020-12-06T10:01:00'', ''1-a''),
                    (''temp/room1@2020-12-06T10:02:00'', ''1-a'')]\<rparr>\<rparr>)"
    by (simp add: realtime_get_def realtime_remove_def sample_dbs_def sample_row_def)
  have a: "archive_series sample_lib (on_2020_12_06 10 11 40) ?dbs ''temp/room1'' 10 =
      (Inl HTTPError, ?dbs1\<lparr>db_realtime := (db_realtime ?dbs1)
         \<lparr>docs := [(''temp/room1@2020-12-06T10:01:00'', ''1-a''),
                    (''temp/room1@2020-12-06T10:02:00'', ''1-a'')]\<rparr>\<rparr>)"
    by (simp only: archive_series_def g p i d sum.case option.case Let_def)
  show ?thesis by (simp add: a mi)
qed

end
